theory Spec2Isabelle
  imports Main "HOL-Library.Word"
begin

section \<open>JavaScript strings, numbers and the string operations the handler uses\<close>

text \<open>
  A JavaScript string is a sequence of 16-bit code units. The regular expressions of the
  handler carry no \<open>u\<close> flag, so they too work on code units.
\<close>

type_synonym jschar = "16 word"
type_synonym jsstring = "jschar list"

definition js :: "string \<Rightarrow> jsstring" where
  \<comment> \<open>a string literal of the source, written with its (ASCII) characters\<close>
  "js s = map (\<lambda>c. of_nat (of_char c)) s"

definition newline :: jschar where
  "newline = 0x0A"

definition period :: jschar where
  "period = 0x2E"

definition space :: jschar where
  "space = 0x20"

definition is_digit :: "jschar \<Rightarrow> bool" where
  \<comment> \<open>the class \<open>\d\<close>: the ten ASCII digits\<close>
  "is_digit c = (0x30 \<le> c \<and> c \<le> 0x39)"

definition is_space :: "jschar \<Rightarrow> bool" where
  \<comment> \<open>the class \<open>\s\<close>, which is also what \<open>trim\<close> removes: white space and line terminators\<close>
  "is_space c =
     (c \<in> set [0x09, 0x0A, 0x0B, 0x0C, 0x0D, 0x20, 0xA0, 0x1680, 0x2028, 0x2029,
                0x202F, 0x205F, 0x3000, 0xFEFF]
      \<or> (0x2000 \<le> c \<and> c \<le> 0x200A))"

definition trim :: "jsstring \<Rightarrow> jsstring" where
  \<comment> \<open>\<open>String.prototype.trim\<close>\<close>
  "trim s = rev (dropWhile is_space (rev (dropWhile is_space s)))"

function split_on :: "jschar \<Rightarrow> jsstring \<Rightarrow> jsstring list" where
  \<comment> \<open>\<open>s.split(c)\<close> for a separator of one code unit: the text before the first separator
      is a piece, and the splitting goes on behind that separator; the empty string gives
      one empty piece\<close>
  "split_on c s =
     (case dropWhile (\<lambda>x. x \<noteq> c) s of
        [] \<Rightarrow> [s]
      | x # rest \<Rightarrow> takeWhile (\<lambda>x. x \<noteq> c) s # split_on c rest)"
  by pat_completeness auto
termination
proof (relation "measure (\<lambda>(c, s). length s)")
  show "wf (measure (\<lambda>(c, s). length s))" by simp
next
  fix c :: jschar and s x rest
  assume "dropWhile (\<lambda>x. x \<noteq> c) s = x # rest"
  then have "length (x # rest) \<le> length s"
    by (metis length_dropWhile_le)
  then show "((c, rest), (c, s)) \<in> measure (\<lambda>(c, s). length s)" by simp
qed

function split_runs :: "(jschar \<Rightarrow> bool) \<Rightarrow> jsstring \<Rightarrow> jsstring list" where
  \<comment> \<open>\<open>s.split(/X+/)\<close> for a character class \<open>X\<close>: the text before the first separator is
      a piece; the greedy separator takes the whole run, and the splitting goes on behind
      it; the empty string gives one empty piece\<close>
  "split_runs P s =
     (case dropWhile (\<lambda>x. \<not> P x) s of
        [] \<Rightarrow> [s]
      | x # rest \<Rightarrow> takeWhile (\<lambda>x. \<not> P x) s # split_runs P (dropWhile P rest))"
  by pat_completeness auto
termination
proof (relation "measure (\<lambda>(P, s). length s)")
  show "wf (measure (\<lambda>(P, s). length s))" by simp
next
  fix P :: "jschar \<Rightarrow> bool" and s x rest
  assume "dropWhile (\<lambda>x. \<not> P x) s = x # rest"
  then have "length (x # rest) \<le> length s"
    by (metis length_dropWhile_le)
  moreover have "length (dropWhile P rest) \<le> length rest"
    by (rule length_dropWhile_le)
  ultimately show "((P, dropWhile P rest), (P, s)) \<in> measure (\<lambda>(P, s). length s)" by simp
qed

declare split_on.simps [simp del] split_runs.simps [simp del]

definition strip_ordinal :: "jsstring \<Rightarrow> jsstring" where
  \<comment> \<open>\<open>s.replace(/^\d+\.\s*/, '')\<close>: the pattern is anchored at the start; \<open>\d+\<close> must take
      every leading digit (a shorter run is followed by a digit, not by the period), then
      comes the period, then \<open>\s*\<close> takes all the white space that follows. Without a match
      the string is returned as it is.\<close>
  "strip_ordinal s =
     (let ds = takeWhile is_digit s; r = dropWhile is_digit s
      in if ds \<noteq> [] \<and> r \<noteq> [] \<and> hd r = period then dropWhile is_space (tl r) else s)"

fun match_digits :: "jsstring \<Rightarrow> jsstring option" where
  \<comment> \<open>\<open>s.match(/\d+/)\<close>: \<open>None\<close> is \<open>null\<close>, \<open>Some m\<close> is the matched text \<open>[0]\<close>. The
      match is tried at each start position from the left and is greedy.\<close>
  "match_digits [] = None"
| "match_digits (c # cs) =
     (if is_digit c then Some (c # takeWhile is_digit cs) else match_digits cs)"

fun join_with :: "jsstring \<Rightarrow> jsstring list \<Rightarrow> jsstring" where
  \<comment> \<open>\<open>xs.join(sep)\<close>\<close>
  "join_with sep [] = []"
| "join_with sep [x] = x"
| "join_with sep (x # y # zs) = x @ sep @ join_with sep (y # zs)"

text \<open>
  A JavaScript number is a double. The numbers the handler makes are the results of
  \<open>parseInt\<close> on a run of digits and the literal 0: a non-negative integer that a double
  holds, or \<open>Infinity\<close>. The Number value of an integer is the double nearest to it, the
  one with the even significand when two are equally near, and \<open>Infinity\<close> when the rounded
  value reaches \<open>2^1024\<close>. A double has a significand of 53 bits, so every integer below
  \<open>2^53\<close> is a double.
\<close>

datatype jsnumber = Num nat | Infinity

function excess_bits :: "nat \<Rightarrow> nat" where
  \<comment> \<open>the number of low bits that do not fit into a significand of 53 bits\<close>
  "excess_bits v = (if v < 2 ^ 53 then 0 else Suc (excess_bits (v div 2)))"
  by pat_completeness auto
termination
  by (relation "measure (\<lambda>v. v)") auto

declare excess_bits.simps [simp del]

definition to_double :: "nat \<Rightarrow> jsnumber" where
  \<comment> \<open>the Number value of a non-negative integer: round to nearest, ties to even\<close>
  "to_double v =
     (if v < 2 ^ 53 then Num v
      else let e = excess_bits v; q = v div 2 ^ e; r = v mod 2 ^ e; half = 2 ^ (e - 1);
               m = (if half < r then q + 1
                    else if r = half \<and> q mod 2 = 1 then q + 1 else q)
           in if 2 ^ 1024 \<le> m * 2 ^ e then Infinity else Num (m * 2 ^ e))"

definition digits_value :: "jsstring \<Rightarrow> nat" where
  \<comment> \<open>the integer that a run of digits is in radix 10, read from the left\<close>
  "digits_value ds = foldl (\<lambda>a c. 10 * a + unat (c - 0x30)) 0 ds"

definition parseInt10 :: "jsstring \<Rightarrow> jsnumber" where
  \<comment> \<open>\<open>parseInt(ds, 10)\<close> on a non-empty run of digits, the only argument the handler
      passes: the Number value of the integer the digits are\<close>
  "parseInt10 ds = to_double (digits_value ds)"

datatype json_number =
    Json_number nat
  | Json_null

definition to_json :: "jsnumber \<Rightarrow> json_number" where
  \<comment> \<open>a number in the body written by \<open>res.json\<close>: \<open>JSON.stringify\<close> writes \<open>Infinity\<close> as
      \<open>null\<close>, and the page's \<open>res.json()\<close> reads a finite number back as it was\<close>
  "to_json n = (case n of Num v \<Rightarrow> Json_number v | Infinity \<Rightarrow> Json_null)"

section \<open>The response parsers of the handler\<close>

definition parseQuestions :: "jsstring \<Rightarrow> jsstring list" where
  \<comment> \<open>\<open>resp.split(/\n+/).map(s=>s.replace(/^\d+\.\s*/,'').trim()).filter(Boolean)\<close>\<close>
  "parseQuestions resp =
     filter (\<lambda>s. s \<noteq> []) (map (\<lambda>s. trim (strip_ordinal s)) (split_runs (\<lambda>c. c = newline) resp))"

record grade =
  score :: jsnumber
  feedback :: jsstring

datatype exn =
    Exn jsstring jsstring  \<comment> \<open>an error object: its name and its message\<close>
  | Undefined_read  \<comment> \<open>the engine's TypeError for reading a property of \<open>undefined\<close>\<close>

definition trimmed_lines :: "jsstring \<Rightarrow> jsstring list" where
  \<comment> \<open>\<open>resp.split('\n').map(l=>l.trim()).filter(Boolean)\<close>\<close>
  "trimmed_lines resp = filter (\<lambda>l. l \<noteq> []) (map trim (split_on newline resp))"

definition parseGrade :: "jsstring \<Rightarrow> exn + grade" where
  \<comment> \<open>the three statements after the model call of \<open>grade_answer\<close>; \<open>lines[0]\<close> of an empty
      array is \<open>undefined\<close>, and reading \<open>.match\<close> of it throws\<close>
  "parseGrade resp =
     (case trimmed_lines resp of
        [] \<Rightarrow> Inl Undefined_read
      | l # ls \<Rightarrow>
          Inr \<lparr>score = (case match_digits l of None \<Rightarrow> Num 0 | Some m \<Rightarrow> parseInt10 m),
               feedback = join_with [space] ls\<rparr>)"

section \<open>The serverless API: \<open>pages/api/interview.js\<close>\<close>

text \<open>
  What the handler's surroundings provide: the environment variable with the API key, the
  answer of the OpenAI endpoint to a prompt, and the message text the engine puts into the
  TypeError it raises when a property of \<open>undefined\<close> is read.
\<close>

datatype upstream =
    Rejects exn  \<comment> \<open>\<open>fetch\<close> or \<open>resp.json()\<close> rejects\<close>
  | No_choice  \<comment> \<open>the reply has no \<open>choices[0]\<close>\<close>
  | Content jsstring  \<comment> \<open>\<open>data.choices[0].message.content\<close>\<close>

record env =
  api_key :: "jsstring option"
  upstream :: "jsstring \<Rightarrow> upstream"
  type_error_message :: jsstring

definition openaiCompletion :: "env \<Rightarrow> jsstring \<Rightarrow> exn + jsstring" where
  "openaiCompletion e prompt =
     (if api_key e = None \<or> api_key e = Some [] then
        Inl (Exn (js ''Error'') (js ''OPENAI_API_KEY not set''))
      else case upstream e prompt of
          Rejects x \<Rightarrow> Inl x
        | No_choice \<Rightarrow> Inl (Exn (js ''Error'') (js ''OpenAI error''))
        | Content t \<Rightarrow> Inr t)"

record request =
  req_method :: jsstring
  action :: "jsstring option"
  req_role :: "jsstring option"
  req_company :: "jsstring option"
  req_program :: "jsstring option"
  req_question :: "jsstring option"
  req_answer :: "jsstring option"

text \<open>
  The fields of \<open>req.body || {}\<close>: \<open>None\<close> is \<open>undefined\<close>, which is what every field of a
  request without a body is.
\<close>

definition interpolate :: "jsstring option \<Rightarrow> jsstring" where
  \<comment> \<open>\<open>${x}\<close> in a template literal\<close>
  "interpolate x = (case x of None \<Rightarrow> js ''undefined'' | Some s \<Rightarrow> s)"

definition or_else :: "jsstring option \<Rightarrow> jsstring \<Rightarrow> jsstring" where
  \<comment> \<open>\<open>x || d\<close>: \<open>undefined\<close> and the empty string are falsy\<close>
  "or_else x d = (case x of None \<Rightarrow> d | Some s \<Rightarrow> if s = [] then d else s)"

definition promptBase :: jsstring where
  "promptBase = js ''You are an expert interviewer and interviewer coach. Be concise and use numbered lists where appropriate.''"

definition prompt :: "request \<Rightarrow> jsstring" where
  "prompt r =
     promptBase @ [newline, newline]
     @ js ''Generate 8 interview questions tailored to the role: '' @ interpolate (req_role r)
     @ js ''. Company: '' @ or_else (req_company r) (js ''generic'')
     @ js ''. Program: '' @ or_else (req_program r) (js ''general'')
     @ js ''. Include a mix of behavioral, technical and role-specific questions. For each question include a short tag in parentheses like (behavioral) or (technical).''"

definition gradingPrompt :: "request \<Rightarrow> jsstring" where
  "gradingPrompt r =
     promptBase @ [newline, newline]
     @ js ''You are grading an interview answer. Role: '' @ interpolate (req_role r)
     @ js ''. Company: '' @ or_else (req_company r) (js ''generic'')
     @ js ''. Program: '' @ or_else (req_program r) (js ''general'') @ js ''.''
     @ [newline, newline] @ js ''Question: '' @ interpolate (req_question r)
     @ [newline, newline] @ js ''Candidate answer: '' @ interpolate (req_answer r)
     @ [newline, newline] @ js ''Provide:'' @ [newline]
     @ js ''1) A numeric score from 1-10 (only the number on the first line).'' @ [newline]
     @ js ''2) A short paragraph (1-3 sentences) explaining the score and 3 bullet point suggestions to improve the answer.''
     @ [newline] @ js ''Keep the response JSON-stringifiable.''"

datatype payload =
    Questions "jsstring list"  \<comment> \<open>\<open>{ questions }\<close>\<close>
  | Grade json_number jsstring  \<comment> \<open>\<open>{ score, feedback }\<close>\<close>
  | Failure jsstring  \<comment> \<open>\<open>{ error }\<close>\<close>

record response =
  status :: nat
  payload :: "payload option"

definition error_text :: "env \<Rightarrow> exn \<Rightarrow> jsstring" where
  \<comment> \<open>\<open>err.message || String(err)\<close>; \<open>String\<close> of an error without message is its name\<close>
  "error_text e x =
     (case x of
        Exn name msg \<Rightarrow> if msg = [] then name else msg
      | Undefined_read \<Rightarrow>
          if type_error_message e = [] then js ''TypeError'' else type_error_message e)"

definition caught :: "env \<Rightarrow> exn \<Rightarrow> response" where
  \<comment> \<open>the \<open>catch\<close> block\<close>
  "caught e x = \<lparr>status = 500, payload = Some (Failure (error_text e x))\<rparr>"

definition handler :: "env \<Rightarrow> request \<Rightarrow> response \<times> jsstring list" where
  \<comment> \<open>the response, and the prompts \<open>openaiCompletion\<close> was called with, in order\<close>
  "handler e r =
     (if req_method r \<noteq> js ''POST'' then (\<lparr>status = 405, payload = None\<rparr>, [])
      else if action r = Some (js ''generate_questions'') then
        (case openaiCompletion e (prompt r) of
           Inl x \<Rightarrow> (caught e x, [prompt r])
         | Inr resp \<Rightarrow>
             (\<lparr>status = 200, payload = Some (Questions (parseQuestions resp))\<rparr>, [prompt r]))
      else if action r = Some (js ''grade_answer'') then
        (case openaiCompletion e (gradingPrompt r) of
           Inl x \<Rightarrow> (caught e x, [gradingPrompt r])
         | Inr resp \<Rightarrow>
             (case parseGrade resp of
                Inl x \<Rightarrow> (caught e x, [gradingPrompt r])
              | Inr g \<Rightarrow>
                  (\<lparr>status = 200, payload = Some (Grade (to_json (score g)) (feedback g))\<rparr>,
                   [gradingPrompt r])))
      else (\<lparr>status = 400, payload = Some (Failure (js ''invalid action''))\<rparr>, []))"

section \<open>The client page: \<open>pages/index.jsx\<close>\<close>

record entry =
  entry_question :: jsstring
  entry_answer :: jsstring
  entry_score :: "json_number option"  \<comment> \<open>\<open>data.score\<close>, \<open>None\<close> when \<open>undefined\<close>\<close>
  entry_feedback :: "jsstring option"  \<comment> \<open>\<open>data.feedback\<close>, \<open>None\<close> when \<open>undefined\<close>\<close>

record state =
  role :: jsstring
  company :: jsstring
  program :: jsstring
  questions :: "jsstring list"
  currentIndex :: int
  answer :: jsstring
  history :: "entry list"
  loading :: bool

definition initial :: state where
  \<comment> \<open>the arguments of the eight \<open>useState\<close> calls\<close>
  "initial = \<lparr>role = js ''Software Engineer'', company = js ''Acme Corp'',
     program = js ''New Grad'', questions = [], currentIndex = 0, answer = [],
     history = [], loading = False\<rparr>"

datatype fetched =
    Rejected  \<comment> \<open>\<open>await fetch(...)\<close> or \<open>await res.json()\<close> rejects\<close>
  | Data payload  \<comment> \<open>the parsed body, whatever the status\<close>

datatype outcome =
    Returned  \<comment> \<open>the async function ran to its end or to a \<open>return\<close>\<close>
  | Threw  \<comment> \<open>a rejected \<open>await\<close> ended it; nothing in the page catches it\<close>

definition data_questions :: "payload \<Rightarrow> jsstring list option" where
  "data_questions d = (case d of Questions qs \<Rightarrow> Some qs | _ \<Rightarrow> None)"

definition data_score :: "payload \<Rightarrow> json_number option" where
  "data_score d = (case d of Grade s f \<Rightarrow> Some s | _ \<Rightarrow> None)"

definition data_feedback :: "payload \<Rightarrow> jsstring option" where
  "data_feedback d = (case d of Grade s f \<Rightarrow> Some f | _ \<Rightarrow> None)"

definition js_index :: "'a list \<Rightarrow> int \<Rightarrow> 'a option" where
  \<comment> \<open>\<open>xs[i]\<close>: \<open>undefined\<close> outside the array\<close>
  "js_index xs i = (if 0 \<le> i \<and> i < int (length xs) then Some (xs ! nat i) else None)"

definition questions_request :: "state \<Rightarrow> request" where
  "questions_request s =
     \<lparr>req_method = js ''POST'', action = Some (js ''generate_questions''),
      req_role = Some (role s), req_company = Some (company s),
      req_program = Some (program s), req_question = None, req_answer = None\<rparr>"

definition grade_request :: "state \<Rightarrow> jsstring \<Rightarrow> request" where
  "grade_request s q =
     \<lparr>req_method = js ''POST'', action = Some (js ''grade_answer''),
      req_role = Some (role s), req_company = Some (company s),
      req_program = Some (program s), req_question = Some q, req_answer = Some (answer s)\<rparr>"

definition fetchQuestions :: "(request \<Rightarrow> fetched) \<Rightarrow> state \<Rightarrow> outcome \<times> state" where
  \<comment> \<open>the first argument is what \<open>fetch\<close> and \<open>res.json()\<close> give for a request\<close>
  "fetchQuestions net s =
     (case net (questions_request s) of
        Rejected \<Rightarrow> (Threw, s\<lparr>loading := True\<rparr>)
      | Data d \<Rightarrow>
          (Returned,
           s\<lparr>questions := (case data_questions d of None \<Rightarrow> [] | Some qs \<Rightarrow> qs),
             currentIndex := 0, history := [], answer := [], loading := False\<rparr>))"

definition gradeAnswer :: "(request \<Rightarrow> fetched) \<Rightarrow> state \<Rightarrow> outcome \<times> state" where
  "gradeAnswer net s =
     (case js_index (questions s) (currentIndex s) of
        None \<Rightarrow> (Returned, s)
      | Some q \<Rightarrow>
          if q = [] then (Returned, s)
          else (case net (grade_request s q) of
              Rejected \<Rightarrow> (Threw, s\<lparr>loading := True\<rparr>)
            | Data d \<Rightarrow>
                (Returned,
                 s\<lparr>history :=
                     \<lparr>entry_question = q, entry_answer = answer s,
                      entry_score = data_score d, entry_feedback = data_feedback d\<rparr>
                     # history s,
                   answer := [],
                   currentIndex := min (currentIndex s + 1) (int (length (questions s)) - 1),
                   loading := False\<rparr>)))"

definition reset :: "state \<Rightarrow> state" where
  \<comment> \<open>the Reset button: \<open>setQuestions([]); setHistory([]); setAnswer('')\<close>\<close>
  "reset s = s\<lparr>questions := [], history := [], answer := []\<rparr>"

definition previous :: "state \<Rightarrow> state" where
  \<comment> \<open>the Prev button\<close>
  "previous s = s\<lparr>currentIndex := max 0 (currentIndex s - 1)\<rparr>"

definition next_question :: "state \<Rightarrow> state" where
  \<comment> \<open>the Next button\<close>
  "next_question s =
     s\<lparr>currentIndex := min (int (length (questions s)) - 1) (currentIndex s + 1)\<rparr>"

text \<open>
  The events of the page. A click that starts a request carries what the request gives.
  The answer box and the Submit, Prev and Next buttons are rendered only while
  \<open>questions.length\<close> is not 0.
\<close>

datatype event =
    Type_role jsstring
  | Type_company jsstring
  | Type_program jsstring
  | Type_answer jsstring
  | Click_fetch fetched
  | Click_reset
  | Click_submit fetched
  | Click_prev
  | Click_next

fun rendered :: "state \<Rightarrow> event \<Rightarrow> bool" where
  "rendered s (Type_answer a) = (questions s \<noteq> [])"
| "rendered s (Click_submit f) = (questions s \<noteq> [])"
| "rendered s Click_prev = (questions s \<noteq> [])"
| "rendered s Click_next = (questions s \<noteq> [])"
| "rendered s ev = True"

fun step :: "state \<Rightarrow> event \<Rightarrow> state" where
  "step s (Type_role x) = s\<lparr>role := x\<rparr>"
| "step s (Type_company x) = s\<lparr>company := x\<rparr>"
| "step s (Type_program x) = s\<lparr>program := x\<rparr>"
| "step s (Type_answer x) = s\<lparr>answer := x\<rparr>"
| "step s (Click_fetch f) = snd (fetchQuestions (\<lambda>r. f) s)"
| "step s Click_reset = reset s"
| "step s (Click_submit f) = snd (gradeAnswer (\<lambda>r. f) s)"
| "step s Click_prev = previous s"
| "step s Click_next = next_question s"

fun run :: "state \<Rightarrow> event list \<Rightarrow> state option" where
  \<comment> \<open>the state after a sequence of events, \<open>None\<close> when one of them is not on the page\<close>
  "run s [] = Some s"
| "run s (ev # evs) = (if rendered s ev then run (step s ev) evs else None)"

definition index_in_range :: "state \<Rightarrow> bool" where
  \<comment> \<open>\<open>0 <= currentIndex < max(1, questions.length)\<close>\<close>
  "index_in_range s =
     (0 \<le> currentIndex s \<and> currentIndex s < max 1 (int (length (questions s))))"

section \<open>The page against the API\<close>

definition served_by :: "env \<Rightarrow> request \<Rightarrow> fetched" where
  \<comment> \<open>\<open>fetch('/api/interview', ...)\<close> answered by the handler: \<open>fetch\<close> resolves whatever the
      status, and \<open>res.json()\<close> rejects on the empty body of \<open>.end()\<close>\<close>
  "served_by e r = (case payload (fst (handler e r)) of None \<Rightarrow> Rejected | Some d \<Rightarrow> Data d)"

definition startSession :: "env \<Rightarrow> state \<Rightarrow> outcome \<times> state" where
  "startSession e s = fetchQuestions (served_by e) s"

definition submitAnswer :: "env \<Rightarrow> state \<Rightarrow> outcome \<times> state" where
  "submitAnswer e s = gradeAnswer (served_by e) s"

section \<open>Numbered lists, the input the question parser is written for\<close>

text \<open>
  A row of the model's text is a numbered line, that is an ordinal marker (digits, a period,
  white space) followed by the text of a question, or a blank line, which is what leaves an
  empty segment. Rows are lines: they hold no newline. The question's text is not blank.
\<close>

datatype row =
    Blank jsstring
  | Numbered jsstring jsstring jsstring  \<comment> \<open>the digits, the white space, the question\<close>

fun row_text :: "row \<Rightarrow> jsstring" where
  "row_text (Blank ws) = ws"
| "row_text (Numbered ds ws q) = ds @ [period] @ ws @ q"

fun well_formed_row :: "row \<Rightarrow> bool" where
  "well_formed_row (Blank ws) = (list_all is_space ws \<and> newline \<notin> set ws)"
| "well_formed_row (Numbered ds ws q) =
     (ds \<noteq> [] \<and> list_all is_digit ds \<and> list_all is_space ws \<and> newline \<notin> set ws
      \<and> newline \<notin> set q \<and> \<not> list_all is_space q)"

fun numbered_rows :: "row list \<Rightarrow> row list" where
  "numbered_rows [] = []"
| "numbered_rows (Blank ws # rs) = numbered_rows rs"
| "numbered_rows (Numbered ds ws q # rs) = Numbered ds ws q # numbered_rows rs"

fun stripped_and_trimmed :: "row \<Rightarrow> jsstring" where
  \<comment> \<open>a row without its ordinal marker and without white space around it\<close>
  "stripped_and_trimmed (Blank ws) = []"
| "stripped_and_trimmed (Numbered ds ws q) = trim q"

definition kept :: "(jsstring \<Rightarrow> jsstring) \<Rightarrow> jsstring list \<Rightarrow> jsstring list" where
  \<comment> \<open>\<open>xs.map(f).filter(Boolean)\<close> on strings\<close>
  "kept f xs = filter (\<lambda>s. s \<noteq> []) (map f xs)"

section \<open>The first integer of a line, in the words of the specification\<close>




section \<open>Environments and states used as concrete inputs\<close>

definition env_failing :: env where
  "env_failing = \<lparr>api_key = Some (js ''sk-test''), upstream = (\<lambda>p. No_choice),
     type_error_message = js ''Cannot read properties of undefined''\<rparr>"

definition env_replying :: "jsstring \<Rightarrow> env" where
  "env_replying t = \<lparr>api_key = Some (js ''sk-test''), upstream = (\<lambda>p. Content t),
     type_error_message = js ''Cannot read properties of undefined''\<rparr>"

definition mid_session :: state where
  "mid_session = initial\<lparr>questions := [js ''Why this role?'', js ''Why us?'', js ''Any questions?''],
     currentIndex := 1, answer := js ''Because'',
     history := [\<lparr>entry_question = js ''Why this role?'', entry_answer = js ''It fits'',
                  entry_score = Some (Json_number 7), entry_feedback = Some (js ''Fine.'')\<rparr>]\<rparr>"

definition empty_role :: state where
  "empty_role = initial\<lparr>role := []\<rparr>"

definition after_two_questions :: state where
  "after_two_questions = initial\<lparr>questions := [js ''Why this role?'', js ''Why us?''],
     currentIndex := 1\<rparr>"

definition blank_grade_request :: request where
  "blank_grade_request = grade_request mid_session (js ''Why us?'')"

definition unknown_action :: request where
  "unknown_action = \<lparr>req_method = js ''POST'', action = Some (js ''delete''),
     req_role = Some (js ''Nurse''), req_company = None, req_program = None,
     req_question = None, req_answer = None\<rparr>"

section \<open>Character classes, trimming and splitting\<close>

lemma space_not_digit: "is_space c \<Longrightarrow> \<not> is_digit c"
  unfolding is_space_def is_digit_def by (auto simp: word_le_def)

lemma newline_is_space: "is_space newline"
  by (simp add: is_space_def newline_def)

lemma period_not_digit: "\<not> is_digit period"
  by (simp add: is_digit_def period_def)

lemma trim_Nil_iff: "trim s = [] \<longleftrightarrow> list_all is_space s"
proof -
  have "trim s = [] \<longleftrightarrow> (\<forall>x \<in> set (dropWhile is_space s). is_space x)"
    by (simp add: trim_def dropWhile_eq_Nil_conv)
  also have "\<dots> \<longleftrightarrow> dropWhile is_space s = []"
  proof
    assume a: "\<forall>x \<in> set (dropWhile is_space s). is_space x"
    show "dropWhile is_space s = []"
    proof (cases "dropWhile is_space s")
      case Nil then show ?thesis .
    next
      case (Cons y ys)
      then have "\<not> is_space y" by (metis hd_dropWhile list.sel(1) list.distinct(1))
      with a Cons show ?thesis by simp
    qed
  next
    assume "dropWhile is_space s = []"
    then show "\<forall>x \<in> set (dropWhile is_space s). is_space x"
      by (metis empty_iff empty_set)
  qed
  also have "\<dots> \<longleftrightarrow> list_all is_space s"
    by (simp add: dropWhile_eq_Nil_conv list_all_iff)
  finally show ?thesis .
qed

lemma trim_dropWhile: "trim (dropWhile is_space q) = trim q"
  by (simp add: trim_def)

lemma split_runs_none:
  "\<not> list_ex P s \<Longrightarrow> split_runs P s = [s]"
proof -
  assume "\<not> list_ex P s"
  then have d: "dropWhile (\<lambda>x. \<not> P x) s = []"
    by (simp add: list_ex_iff)
  show ?thesis by (subst split_runs.simps) (simp only: d list.case)
qed

lemma split_runs_sep:
  assumes "\<not> list_ex P l" and "P x"
  shows "split_runs P (l @ x # rest) = l # split_runs P (dropWhile P rest)"
proof -
  from assms have d: "dropWhile (\<lambda>x. \<not> P x) (l @ x # rest) = x # rest"
    by (simp add: dropWhile_append list_ex_iff)
  from assms have t: "takeWhile (\<lambda>x. \<not> P x) (l @ x # rest) = l"
    by (simp add: takeWhile_append list_ex_iff)
  show ?thesis by (subst split_runs.simps) (simp only: d t list.case)
qed


lemma split_on_none:
  assumes "c \<notin> set s" shows "split_on c s = [s]"
proof -
  from assms have d: "dropWhile (\<lambda>x. x \<noteq> c) s = []"
    by auto
  show ?thesis by (subst split_on.simps) (simp only: d list.case)
qed

lemma split_on_chars: "\<Union> (set ` set (split_on c s)) = set s - {c}"
proof (induction c s rule: split_on.induct)
  case (1 c s)
  show ?case
  proof (cases "dropWhile (\<lambda>x. x \<noteq> c) s")
    case Nil
    then have "c \<notin> set s" by auto
    then show ?thesis by (simp add: split_on_none)
  next
    case (Cons x rest)
    have x: "x = c"
      using hd_dropWhile [of "\<lambda>x. x \<noteq> c" s] Cons by simp
    have "s = takeWhile (\<lambda>x. x \<noteq> c) s @ dropWhile (\<lambda>x. x \<noteq> c) s"
      by simp
    then have s: "s = takeWhile (\<lambda>x. x \<noteq> c) s @ c # rest"
      by (simp only: Cons x)
    have notin: "c \<notin> set (takeWhile (\<lambda>x. x \<noteq> c) s)"
      by (auto dest: set_takeWhileD)
    have "split_on c s = takeWhile (\<lambda>x. x \<noteq> c) s # split_on c rest"
      by (subst split_on.simps) (simp only: Cons list.case)
    moreover have "\<Union> (set ` set (split_on c rest)) = set rest - {c}"
      using "1.IH" Cons by simp
    moreover have "set s = set (takeWhile (\<lambda>x. x \<noteq> c) s) \<union> {c} \<union> set rest"
      by (subst s) auto
    ultimately show ?thesis using notin by auto
  qed
qed

lemma trimmed_lines_Nil_iff: "trimmed_lines s = [] \<longleftrightarrow> list_all is_space s"
proof -
  have "trimmed_lines s = [] \<longleftrightarrow> (\<forall>p \<in> set (split_on newline s). list_all is_space p)"
    by (simp add: trimmed_lines_def filter_empty_conv trim_Nil_iff)
  also have "\<dots> \<longleftrightarrow> (\<forall>x \<in> \<Union> (set ` set (split_on newline s)). is_space x)"
    by (auto simp: list_all_iff)
  also have "\<dots> \<longleftrightarrow> (\<forall>x \<in> set s - {newline}. is_space x)"
    by (simp only: split_on_chars)
  also have "\<dots> \<longleftrightarrow> list_all is_space s"
    using newline_is_space by (auto simp: list_all_iff)
  finally show ?thesis .
qed


section \<open>The question parser on numbered lists\<close>

lemma strip_ordinal_Nil: "strip_ordinal [] = []"
  by (simp add: strip_ordinal_def)

lemma strip_ordinal_numbered:
  assumes "ds \<noteq> []" and "list_all is_digit ds" and "list_all is_space ws"
  shows "trim (strip_ordinal (ds @ [period] @ ws @ q)) = trim q"
proof -
  from assms(2) have t: "takeWhile is_digit (ds @ [period] @ ws @ q) = ds"
    by (simp add: takeWhile_append list_all_iff period_not_digit)
  from assms(2) have d: "dropWhile is_digit (ds @ [period] @ ws @ q) = period # ws @ q"
    by (simp add: dropWhile_append list_all_iff period_not_digit)
  from assms(3) have w: "dropWhile is_space (ws @ q) = dropWhile is_space q"
    by (simp add: dropWhile_append list_all_iff)
  have "strip_ordinal (ds @ [period] @ ws @ q) = dropWhile is_space q"
    unfolding strip_ordinal_def t d using assms(1) by (simp add: w)
  then show ?thesis by (simp add: trim_dropWhile)
qed

lemma strip_ordinal_blank:
  assumes "list_all is_space ws"
  shows "trim (strip_ordinal ws) = []"
proof -
  have "takeWhile is_digit ws = []"
    using assms by (cases ws) (auto simp: space_not_digit)
  then have "strip_ordinal ws = ws" by (simp add: strip_ordinal_def)
  with assms show ?thesis by (simp add: trim_Nil_iff)
qed

lemma kept_split_dropWhile:
  assumes "f [] = []"
  shows "kept f (split_runs P (dropWhile P t)) = kept f (split_runs P t)"
proof (cases t)
  case Nil then show ?thesis by simp
next
  case (Cons x xs)
  show ?thesis
  proof (cases "P x")
    case True
    have "split_runs P (x # xs) = [] # split_runs P (dropWhile P xs)"
      using split_runs_sep [of P "[]" x xs] True by simp
    with True Cons assms show ?thesis by (simp add: kept_def)
  next
    case False
    with Cons show ?thesis by simp
  qed
qed

lemma kept_split_join:
  assumes "f [] = []" and "\<forall>l \<in> set ls. \<not> list_ex P l" and "P c"
  shows "kept f (split_runs P (join_with [c] ls)) = kept f ls"
  using assms(2)
proof (induction "[c]" ls rule: join_with.induct)
  case 1
  show ?case using assms(1) by (simp add: split_runs_none kept_def)
next
  case (2 x)
  then show ?case by (simp add: split_runs_none)
next
  case (3 x y zs)
  have "split_runs P (x @ c # join_with [c] (y # zs)) =
        x # split_runs P (dropWhile P (join_with [c] (y # zs)))"
    using 3 assms(3) by (intro split_runs_sep) auto
  then have "kept f (split_runs P (join_with [c] (x # y # zs))) =
        kept f [x] @ kept f (split_runs P (dropWhile P (join_with [c] (y # zs))))"
    by (simp add: kept_def)
  also have "\<dots> = kept f [x] @ kept f (split_runs P (join_with [c] (y # zs)))"
    using kept_split_dropWhile [of f P "join_with [c] (y # zs)"] assms(1) by simp
  also have "\<dots> = kept f [x] @ kept f (y # zs)"
    using 3 by simp
  finally show ?case by (simp add: kept_def)
qed

lemma row_no_newline: "well_formed_row r \<Longrightarrow> \<not> list_ex (\<lambda>c. c = newline) (row_text r)"
  by (cases r) (auto simp: list_ex_iff list_all_iff newline_def period_def is_digit_def)

lemma kept_rows:
  "list_all well_formed_row rows \<Longrightarrow>
   kept (\<lambda>s. trim (strip_ordinal s)) (map row_text rows) = map stripped_and_trimmed (numbered_rows rows)"
proof (induction rows rule: numbered_rows.induct)
  case 1
  show ?case by (simp add: kept_def)
next
  case (2 ws rs)
  then show ?case by (simp add: kept_def strip_ordinal_blank)
next
  case (3 ds ws q rs)
  then show ?case using strip_ordinal_numbered [of ds ws q]
    by (simp add: kept_def trim_Nil_iff)
qed

lemma parseQuestions_rows:
  assumes "list_all well_formed_row rows"
  shows "parseQuestions (join_with [newline] (map row_text rows))
         = map stripped_and_trimmed (numbered_rows rows)"
proof -
  have "parseQuestions (join_with [newline] (map row_text rows))
        = kept (\<lambda>s. trim (strip_ordinal s))
            (split_runs (\<lambda>c. c = newline) (join_with [newline] (map row_text rows)))"
    by (simp add: parseQuestions_def kept_def)
  also have "\<dots> = kept (\<lambda>s. trim (strip_ordinal s)) (map row_text rows)"
    using assms by (intro kept_split_join) (auto simp: strip_ordinal_Nil trim_def list_all_iff row_no_newline)
  also have "\<dots> = map stripped_and_trimmed (numbered_rows rows)"
    using assms by (rule kept_rows)
  finally show ?thesis .
qed

text \<open>
  C3. A numbered list of well-formed rows, joined by newlines, is parsed into one entry for
  each numbered line (N entries for N numbered lines), in the order of the lines; an entry
  is its line without the ordinal marker and without white space around it; blank lines,
  which leave empty segments, give no entry.
\<close>

theorem parseQuestions_numbered_list:
  assumes "list_all well_formed_row rows"
  shows "parseQuestions (join_with [newline] (map row_text rows))
           = map stripped_and_trimmed (numbered_rows rows)
         \<and> length (parseQuestions (join_with [newline] (map row_text rows)))
           = length (numbered_rows rows)"
  using parseQuestions_rows [OF assms] by simp

theorem parseQuestions_numbered_list_witness:
  "list_all well_formed_row
     [Numbered (js ''1'') (js '' '') (js ''Tell me about yourself''), Blank [],
      Numbered (js ''2'') (js '' '') (js ''Why this role? '')]
   \<and> parseQuestions (js ''1. Tell me about yourself'' @ [newline, newline] @ js ''2. Why this role? '')
       = [js ''Tell me about yourself'', js ''Why this role?'']"
  using parseQuestions_numbered_list
    [of "[Numbered (js ''1'') (js '' '') (js ''Tell me about yourself''), Blank [],
          Numbered (js ''2'') (js '' '') (js ''Why this role? '')]"]
  by (simp add: js_def trim_def is_space_def is_digit_def newline_def period_def)

section \<open>The grade parser\<close>







lemma parseGrade_blank:
  "list_all is_space resp \<Longrightarrow> parseGrade resp = Inl Undefined_read"
  using trimmed_lines_Nil_iff [of resp] by (simp add: parseGrade_def)




section \<open>The handler and the page on a failing model call\<close>

lemma handler_generate:
  assumes "req_method r = js ''POST''" and "action r = Some (js ''generate_questions'')"
  shows "handler e r =
     (case openaiCompletion e (prompt r) of
        Inl x \<Rightarrow> (caught e x, [prompt r])
      | Inr resp \<Rightarrow> (\<lparr>status = 200, payload = Some (Questions (parseQuestions resp))\<rparr>,
                     [prompt r]))"
  using assms by (simp add: handler_def)

lemma action_names_differ: "js ''grade_answer'' \<noteq> js ''generate_questions''"
  by (simp add: js_def)

lemma handler_grade_answer:
  assumes "req_method r = js ''POST''" and "action r = Some (js ''grade_answer'')"
  shows "handler e r =
     (case openaiCompletion e (gradingPrompt r) of
        Inl x \<Rightarrow> (caught e x, [gradingPrompt r])
      | Inr resp \<Rightarrow>
          (case parseGrade resp of
             Inl x \<Rightarrow> (caught e x, [gradingPrompt r])
           | Inr g \<Rightarrow> (\<lparr>status = 200, payload = Some (Grade (to_json (score g)) (feedback g))\<rparr>,
                       [gradingPrompt r])))"
  using assms by (simp add: handler_def action_names_differ)

lemma questions_request_sent:
  "req_method (questions_request s) = js ''POST''"
  "action (questions_request s) = Some (js ''generate_questions'')"
  by (simp_all add: questions_request_def)

lemma grade_request_sent:
  "req_method (grade_request s q) = js ''POST''"
  "action (grade_request s q) = Some (js ''grade_answer'')"
  by (simp_all add: grade_request_def)

lemmas handler_questions = handler_generate [OF questions_request_sent]
lemmas handler_grade = handler_grade_answer [OF grade_request_sent]

lemma served_questions_failure:
  "openaiCompletion e (prompt (questions_request s)) = Inl x \<Longrightarrow>
   served_by e (questions_request s) = Data (Failure (error_text e x))"
  by (simp add: served_by_def handler_questions caught_def)

lemma served_grade_failure:
  "openaiCompletion e (gradingPrompt (grade_request s q)) = Inl x \<Longrightarrow>
   served_by e (grade_request s q) = Data (Failure (error_text e x))"
  by (simp add: served_by_def handler_grade caught_def)

text \<open>
  C1, as the code has it. When a question is selected and the model call of the grading
  request fails, the handler answers with status 500 and the error's text, and the page
  does not look at the status: it prepends a history entry that holds the question, the
  answer and neither score nor feedback, and it advances \<open>currentIndex\<close> by one, up to the
  last index.
\<close>

theorem submitAnswer_upstream_failure:
  assumes "js_index (questions s) (currentIndex s) = Some q" and "q \<noteq> []"
    and "openaiCompletion e (gradingPrompt (grade_request s q)) = Inl x"
  shows "handler e (grade_request s q) = (caught e x, [gradingPrompt (grade_request s q)])
       \<and> submitAnswer e s =
          (Returned,
           s\<lparr>history := \<lparr>entry_question = q, entry_answer = answer s,
                          entry_score = None, entry_feedback = None\<rparr> # history s,
             answer := [],
             currentIndex := min (currentIndex s + 1) (int (length (questions s)) - 1),
             loading := False\<rparr>)"
  using assms
  by (simp add: handler_grade submitAnswer_def gradeAnswer_def served_grade_failure
      data_score_def data_feedback_def)

lemma env_failing_fails: "openaiCompletion env_failing p = Inl (Exn (js ''Error'') (js ''OpenAI error''))"
  by (simp add: openaiCompletion_def env_failing_def js_def)

lemma mid_session_selected: "js_index (questions mid_session) (currentIndex mid_session) = Some (js ''Why us?'')"
  by (simp add: mid_session_def js_index_def)

theorem submitAnswer_upstream_failure_witness:
  "js_index (questions mid_session) (currentIndex mid_session) = Some (js ''Why us?'')
   \<and> openaiCompletion env_failing (gradingPrompt (grade_request mid_session (js ''Why us?'')))
       = Inl (Exn (js ''Error'') (js ''OpenAI error''))
   \<and> length (history (snd (submitAnswer env_failing mid_session))) = 2
   \<and> currentIndex (snd (submitAnswer env_failing mid_session)) = 2"
proof -
  have q: "js ''Why us?'' \<noteq> []" by (simp add: js_def)
  from submitAnswer_upstream_failure [OF mid_session_selected q env_failing_fails]
  have "length (history (snd (submitAnswer env_failing mid_session))) = 2
      \<and> currentIndex (snd (submitAnswer env_failing mid_session)) = 2"
    by (simp add: mid_session_def)
  with mid_session_selected env_failing_fails show ?thesis by simp
qed

theorem submitAnswer_upstream_failure_counterexample:
  "openaiCompletion env_failing (gradingPrompt (grade_request mid_session (js ''Why us?'')))
     = Inl (Exn (js ''Error'') (js ''OpenAI error''))
   \<and> history (snd (submitAnswer env_failing mid_session)) \<noteq> history mid_session
   \<and> currentIndex (snd (submitAnswer env_failing mid_session)) \<noteq> currentIndex mid_session"
proof -
  have s: "served_by env_failing (grade_request mid_session (js ''Why us?''))
           = Data (Failure (js ''OpenAI error''))"
    using served_grade_failure [OF env_failing_fails, of mid_session "js ''Why us?''"]
    by (simp add: error_text_def js_def)
  have q: "js ''Why us?'' \<noteq> []" by (simp add: js_def)
  have "submitAnswer env_failing mid_session =
     (Returned,
      mid_session\<lparr>history := \<lparr>entry_question = js ''Why us?'', entry_answer = answer mid_session,
                          entry_score = None, entry_feedback = None\<rparr> # history mid_session,
             answer := [],
             currentIndex := min (currentIndex mid_session + 1) (int (length (questions mid_session)) - 1),
             loading := False\<rparr>)"
    by (simp add: submitAnswer_def gradeAnswer_def mid_session_selected q s
        data_score_def data_feedback_def)
  then show ?thesis using env_failing_fails by (simp add: mid_session_def)
qed

section \<open>A blank reply to a grading request\<close>

text \<open>
  C2, as the code has it. When the model's reply to a grading request is empty or holds
  only white space, no line is left, \<open>lines[0]\<close> is \<open>undefined\<close> and reading its
  \<open>match\<close> throws: the grade parser raises the engine's TypeError instead of returning
  score 0 and empty feedback, and the handler's catch block answers with status 500.
\<close>

theorem grade_answer_blank_reply:
  assumes "list_all is_space resp"
    and "req_method r = js ''POST''" and "action r = Some (js ''grade_answer'')"
    and "openaiCompletion e (gradingPrompt r) = Inr resp"
  shows "parseGrade resp = Inl Undefined_read
       \<and> handler e r = (caught e Undefined_read, [gradingPrompt r])"
  using assms by (simp add: handler_grade_answer parseGrade_blank)

lemma env_replying_replies: "openaiCompletion (env_replying t) p = Inr t"
  by (simp add: openaiCompletion_def env_replying_def js_def)

theorem grade_answer_blank_reply_witness:
  "list_all is_space [space, newline, space]
   \<and> parseGrade [space, newline, space] = Inl Undefined_read
   \<and> parseGrade [] = Inl Undefined_read
   \<and> fst (handler (env_replying []) blank_grade_request)
       = \<lparr>status = 500, payload = Some (Failure (js ''Cannot read properties of undefined''))\<rparr>"
proof -
  have b: "list_all is_space [space, newline, space]"
    by (simp add: is_space_def space_def newline_def)
  have m: "req_method blank_grade_request = js ''POST''"
    and a: "action blank_grade_request = Some (js ''grade_answer'')"
    by (simp_all add: blank_grade_request_def grade_request_sent)
  from grade_answer_blank_reply [OF b m a env_replying_replies]
  have 1: "parseGrade [space, newline, space] = Inl Undefined_read" by simp
  have n: "list_all is_space []" by simp
  from grade_answer_blank_reply [OF n m a env_replying_replies]
  have 2: "parseGrade [] = Inl Undefined_read
     \<and> fst (handler (env_replying []) blank_grade_request)
       = \<lparr>status = 500, payload = Some (Failure (js ''Cannot read properties of undefined''))\<rparr>"
    by (simp add: caught_def error_text_def env_replying_def js_def)
  from b 1 2 show ?thesis by simp
qed

section \<open>Starting a session\<close>

lemma startSession_result:
  "snd (handler e (questions_request s)) = [prompt (questions_request s)]
   \<and> startSession e s =
          (Returned,
           s\<lparr>questions := (case openaiCompletion e (prompt (questions_request s)) of
                             Inl x \<Rightarrow> [] | Inr resp \<Rightarrow> parseQuestions resp),
             currentIndex := 0, history := [], answer := [], loading := False\<rparr>)"
proof (cases "openaiCompletion e (prompt (questions_request s))")
  case (Inl x)
  then show ?thesis
    by (simp add: handler_questions startSession_def fetchQuestions_def served_by_def
        caught_def data_questions_def)
next
  case (Inr resp)
  then show ?thesis
    by (simp add: handler_questions startSession_def fetchQuestions_def served_by_def
        data_questions_def)
qed

text \<open>
  C5, as the code has it. Nothing validates the role. With an empty role the page sends the
  request, the handler builds the prompt from the empty role and calls the model client
  once with it, and \<open>fetchQuestions\<close> returns normally with the questions parsed from the
  reply (none when the call failed).
\<close>

theorem startSession_empty_role:
  assumes "role s = []"
  shows "req_role (questions_request s) = Some []
       \<and> snd (handler e (questions_request s)) = [prompt (questions_request s)]
       \<and> startSession e s =
          (Returned,
           s\<lparr>questions := (case openaiCompletion e (prompt (questions_request s)) of
                             Inl x \<Rightarrow> [] | Inr resp \<Rightarrow> parseQuestions resp),
             currentIndex := 0, history := [], answer := [], loading := False\<rparr>)"
proof -
  from assms have "req_role (questions_request s) = Some []"
    by (simp add: questions_request_def)
  with startSession_result [of e s] show ?thesis by simp
qed

lemma parse_one: "parseQuestions (js ''1. Why us?'') = [js ''Why us?'']"
  by (simp add: parseQuestions_def split_runs.simps strip_ordinal_def trim_def js_def
      is_digit_def is_space_def newline_def period_def)

theorem startSession_empty_role_witness:
  "role empty_role = []
   \<and> snd (handler (env_replying (js ''1. Why us?'')) (questions_request empty_role))
       = [prompt (questions_request empty_role)]
   \<and> fst (startSession (env_replying (js ''1. Why us?'')) empty_role) = Returned
   \<and> questions (snd (startSession (env_replying (js ''1. Why us?'')) empty_role)) = [js ''Why us?'']"
proof -
  have r: "role empty_role = []" by (simp add: empty_role_def)
  from startSession_empty_role [OF r, of "env_replying (js ''1. Why us?'')"]
  show ?thesis using r by (simp add: env_replying_replies parse_one)
qed

theorem startSession_empty_role_counterexample:
  "role empty_role = []
   \<and> startSession (env_replying (js ''1. Why us?'')) empty_role
       = (Returned, empty_role\<lparr>questions := [js ''Why us?'']\<rparr>)
   \<and> handler (env_replying (js ''1. Why us?'')) (questions_request empty_role)
       = (\<lparr>status = 200, payload = Some (Questions [js ''Why us?''])\<rparr>,
          [prompt (questions_request empty_role)])"
proof -
  have h: "handler (env_replying (js ''1. Why us?'')) (questions_request empty_role)
       = (\<lparr>status = 200, payload = Some (Questions [js ''Why us?''])\<rparr>,
          [prompt (questions_request empty_role)])"
    by (simp add: handler_questions env_replying_replies parse_one)
  then have "startSession (env_replying (js ''1. Why us?'')) empty_role
       = (Returned, empty_role\<lparr>questions := [js ''Why us?'']\<rparr>)"
    by (simp add: startSession_def fetchQuestions_def served_by_def data_questions_def
        empty_role_def initial_def)
  with h show ?thesis by (simp add: empty_role_def)
qed

text \<open>
  C6, as the code has it. When the model call of the question request fails, the handler
  answers with status 500 and the error's text; the page does not look at the status and
  shows no error: \<open>fetchQuestions\<close> returns normally and replaces the session, with no
  questions, \<open>currentIndex\<close> 0, an empty history and an empty answer.
\<close>

theorem startSession_upstream_failure:
  assumes "openaiCompletion e (prompt (questions_request s)) = Inl x"
  shows "handler e (questions_request s) = (caught e x, [prompt (questions_request s)])
       \<and> startSession e s =
          (Returned,
           s\<lparr>questions := [], currentIndex := 0, history := [], answer := [],
             loading := False\<rparr>)"
  using assms
  by (simp add: handler_questions startSession_def fetchQuestions_def
      served_questions_failure data_questions_def)

theorem startSession_upstream_failure_witness:
  "openaiCompletion env_failing (prompt (questions_request mid_session))
     = Inl (Exn (js ''Error'') (js ''OpenAI error''))
   \<and> fst (handler env_failing (questions_request mid_session))
       = \<lparr>status = 500, payload = Some (Failure (js ''OpenAI error''))\<rparr>
   \<and> questions (snd (startSession env_failing mid_session)) = []
   \<and> history (snd (startSession env_failing mid_session)) = []
   \<and> currentIndex (snd (startSession env_failing mid_session)) = 0"
  using startSession_upstream_failure [OF env_failing_fails, of mid_session]
  by (simp add: env_failing_fails caught_def error_text_def js_def)

theorem startSession_upstream_failure_counterexample:
  "openaiCompletion env_failing (prompt (questions_request mid_session))
     = Inl (Exn (js ''Error'') (js ''OpenAI error''))
   \<and> fst (startSession env_failing mid_session) = Returned
   \<and> questions (snd (startSession env_failing mid_session)) \<noteq> questions mid_session
   \<and> currentIndex (snd (startSession env_failing mid_session)) \<noteq> currentIndex mid_session
   \<and> history (snd (startSession env_failing mid_session)) \<noteq> history mid_session"
proof -
  have "startSession env_failing mid_session =
          (Returned,
           mid_session\<lparr>questions := [], currentIndex := 0, history := [], answer := [],
             loading := False\<rparr>)"
    by (simp add: startSession_def fetchQuestions_def data_questions_def
        served_questions_failure [OF env_failing_fails])
  then show ?thesis by (simp add: env_failing_fails mid_session_def)
qed

section \<open>Submitting without a selected question\<close>

text \<open>
  C7, as the code has it. When \<open>questions\<close> is empty, or \<open>currentIndex\<close> selects no
  question, \<open>gradeAnswer\<close> returns at its guard: it raises no error, sends no request
  (the result does not depend on what a request would give) and leaves the whole state,
  \<open>history\<close> and \<open>currentIndex\<close> included, as it was.
\<close>

theorem gradeAnswer_no_question:
  assumes "questions s = [] \<or> js_index (questions s) (currentIndex s) = None"
  shows "gradeAnswer net s = (Returned, s) \<and> submitAnswer e s = (Returned, s)"
proof -
  from assms have "js_index (questions s) (currentIndex s) = None"
    by (auto simp: js_index_def)
  then show ?thesis by (simp add: gradeAnswer_def submitAnswer_def)
qed

theorem gradeAnswer_no_question_witness:
  "(questions initial = [] \<or> js_index (questions initial) (currentIndex initial) = None)
   \<and> submitAnswer env_failing initial = (Returned, initial)
   \<and> js_index (questions mid_session) 3 = None
   \<and> gradeAnswer (served_by env_failing) (mid_session\<lparr>currentIndex := 3\<rparr>)
       = (Returned, mid_session\<lparr>currentIndex := 3\<rparr>)"
proof -
  have a: "questions initial = [] \<or> js_index (questions initial) (currentIndex initial) = None"
    by (simp add: initial_def)
  have b: "js_index (questions (mid_session\<lparr>currentIndex := 3\<rparr>))
             (currentIndex (mid_session\<lparr>currentIndex := 3\<rparr>)) = None"
    by (simp add: mid_session_def js_index_def)
  from gradeAnswer_no_question [OF a, of _ env_failing]
       gradeAnswer_no_question [OF disjI2, OF b, of "served_by env_failing"]
  show ?thesis using a b by simp
qed

theorem gradeAnswer_no_question_counterexample:
  "questions initial = [] \<and> fst (submitAnswer env_failing initial) = Returned
   \<and> fst (submitAnswer env_failing initial) \<noteq> Threw"
  by (simp add: initial_def submitAnswer_def gradeAnswer_def js_index_def)

section \<open>Reset and the range of the index\<close>

text \<open>
  What the Reset button does to each field: it empties \<open>questions\<close>, \<open>history\<close> and
  \<open>answer\<close>, and leaves the parameters, \<open>loading\<close> and \<open>currentIndex\<close> as they are.
\<close>

lemma reset_fields:
  "questions (reset s) = [] \<and> history (reset s) = [] \<and> answer (reset s) = []
   \<and> currentIndex (reset s) = currentIndex s
   \<and> role (reset s) = role s \<and> company (reset s) = company s \<and> program (reset s) = program s
   \<and> loading (reset s) = loading s"
  by (simp add: reset_def)

text \<open>
  C9, as the code has it. The Reset button does not set \<open>currentIndex\<close>: on the state
  with two questions and \<open>currentIndex\<close> 1 it gives the initial state with
  \<open>currentIndex\<close> still 1, not 0.
\<close>

theorem reset_keeps_currentIndex:
  "currentIndex after_two_questions = 1
   \<and> reset after_two_questions = initial\<lparr>currentIndex := 1\<rparr>
   \<and> currentIndex (reset after_two_questions) = 1"
  by (simp add: reset_def after_two_questions_def initial_def)

text \<open>
  C8, as the code has it. Fetching two questions, clicking Next and clicking Reset leaves
  \<open>currentIndex\<close> at 1 with no questions, so \<open>0 <= currentIndex < max(1, questions.length)\<close>
  does not hold in a reachable state.
\<close>

theorem reset_breaks_index_in_range:
  "run initial [Click_fetch (Data (Questions [js ''Why this role?'', js ''Why us?''])),
                Click_next, Click_reset]
     = Some (initial\<lparr>currentIndex := 1\<rparr>)
   \<and> questions (initial\<lparr>currentIndex := 1\<rparr>) = []
   \<and> \<not> index_in_range (initial\<lparr>currentIndex := 1\<rparr>)"
  by (simp add: fetchQuestions_def data_questions_def next_question_def reset_def
      index_in_range_def initial_def js_def)

text \<open>
  Every other event keeps the index in range, so the range holds in every state reached
  without the Reset button.
\<close>

lemma step_keeps_index_in_range:
  assumes "index_in_range s" and "rendered s ev" and "ev \<noteq> Click_reset"
  shows "index_in_range (step s ev)"
proof (cases ev)
  case (Click_fetch f)
  with assms show ?thesis
    by (cases f) (simp_all add: fetchQuestions_def index_in_range_def)
next
  case (Click_submit f)
  with assms show ?thesis
    by (cases f)
       (auto simp: gradeAnswer_def index_in_range_def js_index_def split: option.splits if_splits)
next
  case Click_prev
  with assms show ?thesis by (auto simp: previous_def index_in_range_def)
next
  case Click_next
  with assms show ?thesis by (auto simp: next_question_def index_in_range_def)
qed (use assms in \<open>simp_all add: index_in_range_def\<close>)

lemma run_keeps_index_in_range:
  "index_in_range s \<Longrightarrow> Click_reset \<notin> set evs \<Longrightarrow> run s evs = Some s'
   \<Longrightarrow> index_in_range s'"
proof (induction evs arbitrary: s)
  case Nil
  then show ?case by simp
next
  case (Cons ev evs)
  then show ?case
    by (auto split: if_splits intro: step_keeps_index_in_range)
qed

lemma index_in_range_without_reset:
  "Click_reset \<notin> set evs \<Longrightarrow> run initial evs = Some s \<Longrightarrow> index_in_range s"
  by (rule run_keeps_index_in_range [of initial]) (simp_all add: index_in_range_def initial_def)

section \<open>An unknown action\<close>

text \<open>
  C10. A POST request whose action is neither \<open>generate_questions\<close> nor
  \<open>grade_answer\<close> is answered with status 400 and the body \<open>{error: "invalid action"}\<close>,
  and the model client is not called.
\<close>

theorem handler_invalid_action:
  assumes "req_method r = js ''POST''"
    and "action r \<noteq> Some (js ''generate_questions'')"
    and "action r \<noteq> Some (js ''grade_answer'')"
  shows "handler e r = (\<lparr>status = 400, payload = Some (Failure (js ''invalid action''))\<rparr>, [])"
  using assms by (simp add: handler_def)

theorem handler_invalid_action_witness:
  "req_method unknown_action = js ''POST''
   \<and> action unknown_action \<noteq> Some (js ''generate_questions'')
   \<and> action unknown_action \<noteq> Some (js ''grade_answer'')
   \<and> handler (env_replying (js ''1. Why us?'')) unknown_action
       = (\<lparr>status = 400, payload = Some (Failure (js ''invalid action''))\<rparr>, [])"
proof -
  have m: "req_method unknown_action = js ''POST''"
    by (simp add: unknown_action_def)
  have g: "action unknown_action \<noteq> Some (js ''generate_questions'')"
    by (simp add: unknown_action_def js_def)
  have a: "action unknown_action \<noteq> Some (js ''grade_answer'')"
    by (simp add: unknown_action_def js_def)
  from handler_invalid_action [OF m g a, of "env_replying (js ''1. Why us?'')"] m g a
  show ?thesis by simp
qed

end
